theory Spec2Isabelle
  imports Complex_Main "HOL-Library.Log_Nat" "HOL-Library.AList" "HOL-Library.Sublist"
begin

section \<open>Python numbers\<close>

text \<open>
  Python's \<open>int\<close> is unbounded and is modelled by \<^typ>\<open>int\<close>. Python's \<open>float\<close> is
  IEEE-754 binary64 with round-to-nearest, ties-to-even. A finite float is modelled by the
  rational number it denotes; every arithmetic operation computes the exact rational
  result and rounds it with \<open>fl\<close> to 53 significant bits (with the gradual underflow of
  binary64 below \<open>2 ^ -1022\<close>). The exponent is not bounded above: the model agrees with
  binary64 as long as no value reaches \<open>2 ^ 1024\<close>, which no SQLite INTEGER column
  (64 bits) scaled by this program's constants can produce.
\<close>

type_synonym pyfloat = rat

definition pow2 :: "int \<Rightarrow> rat" where
  "pow2 e = (if 0 \<le> e then 2 ^ nat e else 1 / 2 ^ nat (- e))"

definition round_half_even :: "rat \<Rightarrow> int" where
  "round_half_even x =
     (let f = \<lfloor>x\<rfloor>; d = x - of_int f
      in if d < 1 / 2 then f else if 1 / 2 < d then f + 1 else if even f then f else f + 1)"

text \<open>\<open>ilog2 x\<close> is the binary exponent of a positive rational: \<open>2 ^ ilog2 x \<le> x < 2 ^ (ilog2 x + 1)\<close>.\<close>

definition ilog2 :: "rat \<Rightarrow> int" where
  "ilog2 x = (let (p, q) = quotient_of x; k = bitlen p - bitlen q
              in if pow2 k \<le> x then k else k - 1)"

definition fl :: "rat \<Rightarrow> pyfloat" where
  "fl x = (if x = 0 then 0
           else let e = max (ilog2 \<bar>x\<bar> - 52) (- 1074)
                in of_int (round_half_even (x / pow2 e)) * pow2 e)"

text \<open>\<open>int(x)\<close> of a float truncates towards zero.\<close>

definition py_int :: "pyfloat \<Rightarrow> int" where
  "py_int x = (if 0 \<le> x then \<lfloor>x\<rfloor> else \<lceil>x\<rceil>)"

text \<open>Mixed arithmetic converts the \<open>int\<close> operand to a float first.\<close>

definition float_of_int :: "int \<Rightarrow> pyfloat" where
  "float_of_int i = fl (of_int i)"

definition fadd :: "pyfloat \<Rightarrow> pyfloat \<Rightarrow> pyfloat" where
  "fadd a b = fl (a + b)"

definition fsub :: "pyfloat \<Rightarrow> pyfloat \<Rightarrow> pyfloat" where
  "fsub a b = fl (a - b)"

definition fmul :: "pyfloat \<Rightarrow> pyfloat \<Rightarrow> pyfloat" where
  "fmul a b = fl (a * b)"

definition fdiv :: "pyfloat \<Rightarrow> pyfloat \<Rightarrow> pyfloat" where
  "fdiv a b = fl (a / b)"

section \<open>The collection database\<close>

text \<open>
  The tables of \<open>create_tables\<close>, one record per row, the columns in the order of the
  schema. A table is the list of its rows. The state is what the open connection sees,
  uncommitted changes included.
\<close>

record card_row =
  c_id :: int
  c_nid :: int
  c_did :: int
  c_ord :: int
  c_mod :: int
  c_usn :: int
  c_type :: int
  c_queue :: int
  c_due :: int
  c_ivl :: int
  c_factor :: int
  c_reps :: int
  c_lapses :: int
  c_left :: int
  c_odue :: int
  c_odid :: int
  c_flags :: int
  c_data :: string

record note_row =
  n_id :: int
  n_guid :: string
  n_mid :: int
  n_mod :: int
  n_usn :: int
  n_tags :: string
  n_flds :: string
  n_sfld :: string
  n_csum :: int
  n_flags :: int
  n_data :: string

record revlog_row =
  r_id :: int
  r_cid :: int
  r_usn :: int
  r_ease :: int
  r_ivl :: int
  r_lastIvl :: int
  r_factor :: int
  r_time :: int
  r_type :: int

section \<open>Clock and dates\<close>

text \<open>
  A naive \<open>datetime\<close> is its number of microseconds since 1970-01-01 00:00:00; the type
  covers the years 1 to 9999. \<open>time.time()\<close> is a float of seconds. The readings that one
  call of the scheduler takes are its inputs, in the order the code takes them.
\<close>

type_synonym datetime = int

definition usec_per_day :: int where
  "usec_per_day = 86400000000"

definition datetime_min :: datetime where
  "datetime_min = - 719162 * usec_per_day"

definition datetime_max :: datetime where
  "datetime_max = 2932897 * usec_per_day - 1"

record clock =
  time_1 :: pyfloat
  now_1 :: datetime
  time_2 :: pyfloat
  randint_1 :: int

datatype error =
    ValueError_quality
  | ValueError_no_card int
  | IntegrityError
  | OverflowError
  | TypeError
  | KeyError

definition days_since_epoch :: "datetime \<Rightarrow> int" where
  "days_since_epoch date = date div usec_per_day"

text \<open>\<open>epoch + timedelta(days=days)\<close> raises OverflowError outside the range of \<open>datetime\<close>.\<close>

definition date_from_days :: "int \<Rightarrow> error + datetime" where
  "date_from_days days =
     (if days * usec_per_day < datetime_min \<or> datetime_max < days * usec_per_day
      then Inl OverflowError else Inr (days * usec_per_day))"

text \<open>
  The collection record keeps its note types in the \<open>models\<close> column, a JSON object
  keyed by the decimal model id. The column is modelled by the dictionary that
  \<open>json.loads\<close> returns (keys in insertion order), so that \<open>json.dumps\<close> and
  \<open>json.loads\<close> are the identity. The other JSON columns stay text.
\<close>

record field_doc =
  f_name :: string
  f_ord :: int
  f_sticky :: bool
  f_rtl :: bool
  f_font :: string
  f_size :: int
  f_media :: "string list"

record tmpl_doc =
  t_name :: string
  t_ord :: int
  t_qfmt :: string
  t_afmt :: string
  t_bqfmt :: string
  t_bafmt :: string
  t_did :: "int option"
  t_bfont :: string
  t_bsize :: int

record model_doc =
  m_id :: int
  m_name :: string
  m_type :: int
  m_mod :: int
  m_usn :: int
  m_sortf :: int
  m_tags :: "string list"
  m_did :: int
  m_tmpls :: "tmpl_doc list"
  m_flds :: "field_doc list"
  m_css :: string
  m_latexPre :: string
  m_latexPost :: string
  m_req :: "(int \<times> string \<times> int list) list"

record col_row =
  col_id :: int
  col_crt :: int
  col_mod :: int
  col_scm :: int
  col_ver :: int
  col_dty :: int
  col_usn :: int
  col_ls :: int
  col_conf :: string
  col_models :: "(string \<times> model_doc) list"
  col_decks :: string
  col_dconf :: string
  col_tags :: string

record db =
  db_col :: "col_row list"
  db_notes :: "note_row list"
  db_cards :: "card_row list"
  db_revlog :: "revlog_row list"

section \<open>The scheduler\<close>

text \<open>
  \<open>AnkiSM2.apply_sm2_algorithm\<close> (review_anki_schema.py, and unchanged in
  review_and_export_v2.py). The result is the state the connection sees afterwards
  together with the exception raised or the value returned. The returned display string
  is kept as its content: the minutes, or the date that \<open>strftime\<close> prints.

  \<open>revlog.id\<close> is declared INTEGER PRIMARY KEY, so the INSERT raises IntegrityError when
  a row with the new id exists; the UPDATE before it has been executed by then.
\<close>

datatype next_review = In_minutes int | On_date datetime

definition select_card :: "db \<Rightarrow> int \<Rightarrow> card_row option" where
  "select_card d card_id = find (\<lambda>c. c_id c = card_id) (db_cards d)"

definition apply_sm2_algorithm ::
  "clock \<Rightarrow> db \<Rightarrow> int \<Rightarrow> int \<Rightarrow> db \<times> (error + next_review)" where
  "apply_sm2_algorithm clk d card_id quality =
     (if quality < 0 \<or> quality > 5 then (d, Inl ValueError_quality)
      else case select_card d card_id of
        None \<Rightarrow> (d, Inl (ValueError_no_card card_id))
      | Some row \<Rightarrow>
         (let interval = c_ivl row;
              factor = c_factor row;
              reps = c_reps row;
              lapses = c_lapses row;
              current_time = py_int (time_1 clk);
              today = days_since_epoch (now_1 clk);
              ease_factor = fdiv (float_of_int factor) 1000;
              (new_interval, new_ease_factor, new_type, new_queue, due, reps, lapses, left) =
                (if quality < 3 then
                   (let new_interval = 1;
                        new_ease_factor = max (fl (13 / 10)) (fsub ease_factor (fl (2 / 10)))
                    in (new_interval, new_ease_factor, 1, 1, current_time + new_interval * 60,
                        reps, lapses + 1, 3))
                 else
                   (let reps = reps + 1;
                        new_ease_factor =
                          max (fl (13 / 10))
                            (fadd ease_factor
                              (fsub (fl (1 / 10))
                                (fmul (float_of_int (5 - quality))
                                  (fadd (fl (8 / 100))
                                    (fmul (float_of_int (5 - quality)) (fl (2 / 100)))))));
                        new_interval =
                          (if interval = 0 then 1
                           else if interval = 1 then 6
                           else py_int (fmul (float_of_int interval) new_ease_factor))
                    in (new_interval, new_ease_factor, 2, 2, today + new_interval,
                        reps, lapses, 0)));
              d1 = d\<lparr>db_cards :=
                     map (\<lambda>c. if c_id c = card_id
                               then c\<lparr>c_type := new_type, c_queue := new_queue, c_due := due,
                                      c_ivl := new_interval,
                                      c_factor := py_int (fmul new_ease_factor (float_of_int 1000)),
                                      c_reps := reps, c_lapses := lapses, c_left := left,
                                      c_mod := current_time\<rparr>
                               else c) (db_cards d)\<rparr>;
              review_id = py_int (fmul (time_2 clk) (float_of_int 1000))
          in if review_id \<in> set (map r_id (db_revlog d1)) then (d1, Inl IntegrityError)
             else
               (let d2 = d1\<lparr>db_revlog := db_revlog d1 @
                           [\<lparr>r_id = review_id, r_cid = card_id, r_usn = - 1,
                             r_ease = quality + 1, r_ivl = new_interval, r_lastIvl = interval,
                             r_factor = py_int (fmul new_ease_factor (float_of_int 1000)),
                             r_time = randint_1 clk,
                             r_type = (if quality < 3 then 0 else 1)\<rparr>]\<rparr>
                in if new_queue = 1 then (d2, Inr (In_minutes new_interval))
                   else (case date_from_days due of
                           Inl e \<Rightarrow> (d2, Inl e)
                         | Inr next_review_date \<Rightarrow> (d2, Inr (On_date next_review_date))))))"

section \<open>Strings\<close>

text \<open>
  A Python \<open>str\<close> is modelled by its UTF-8 bytes. The separator \<open>0x1F\<close> and the braces
  of a placeholder are ASCII, so splitting and substring search agree on bytes and on
  code points. \<open>py_str\<close> is \<open>str\<close> on an \<open>int\<close>; \<open>split_on\<close> is \<open>str.split(sep)\<close> for
  a one-character separator (it never returns the empty list).
\<close>

definition digit_char :: "nat \<Rightarrow> char" where
  "digit_char k = ''0123456789'' ! k"

fun str_nat :: "nat \<Rightarrow> string" where
  "str_nat n =
     (if n < 10 then [digit_char n]
      else str_nat (n div 10) @ [digit_char (n mod 10)])"

definition py_str :: "int \<Rightarrow> string" where
  "py_str i = (if i < 0 then CHR ''-'' # str_nat (nat (- i)) else str_nat (nat i))"

fun split_on :: "char \<Rightarrow> string \<Rightarrow> string list" where
  "split_on sep [] = [[]]"
| "split_on sep (c # cs) =
     (if c = sep then [] # split_on sep cs
      else (case split_on sep cs of
              [] \<Rightarrow> [[c]]
            | p # ps \<Rightarrow> (c # p) # ps))"

section \<open>Due cards\<close>

text \<open>
  \<open>AnkiSM2.get_cards_due_today\<close>. The join is the nested loop over both tables; SQLite
  leaves the order of the rows open. \<open>datetime.now()\<close> is the input \<open>now\<close>.
\<close>

record due_card =
  dc_id :: int
  dc_question :: string
  dc_answer :: string

fun due_result :: "(int \<times> string) list \<Rightarrow> due_card list" where
  "due_result [] = []"
| "due_result ((card_id, fields') # rest) =
     (let parts = split_on (CHR 0x1F) fields'
      in if length parts \<ge> 2
         then \<lparr>dc_id = card_id, dc_question = parts ! 0, dc_answer = parts ! 1\<rparr> # due_result rest
         else due_result rest)"

definition get_cards_due_today :: "datetime \<Rightarrow> db \<Rightarrow> due_card list" where
  "get_cards_due_today now d =
     (let today = days_since_epoch now;
          due_cards =
            [(c_id c, n_flds n). c \<leftarrow> db_cards d, n \<leftarrow> db_notes d,
               c_nid c = n_id n \<and> (c_queue c = 0 \<or> (c_queue c = 2 \<and> c_due c \<le> today))]
      in due_result due_cards)"

section \<open>Adding a note type\<close>

text \<open>
  \<open>add_model\<close> (the same text in anki-flashcard-app.py and review_and_export_v2.py).
  It reads the clock three times: for the id, for the model's \<open>mod\<close> and for the
  collection's \<open>mod\<close>. \<open>fetchone()[0]\<close> raises TypeError when the collection record is
  missing. Storing under an existing key replaces the value and keeps the key's place.
\<close>

record template =
  tp_name :: string
  tp_qfmt :: string
  tp_afmt :: string

record model_clock =
  mtime_1 :: pyfloat
  mtime_2 :: pyfloat
  mtime_3 :: pyfloat

definition nl :: string where
  "nl = [CHR 0x0A]"

definition bsl :: string where
  "bsl = [CHR 0x5C]"

definition default_css :: string where
  "default_css =
     ''.card {'' @ nl @ '' font-family: arial;'' @ nl @ '' font-size: 20px;'' @ nl @
     '' text-align: center;'' @ nl @ '' color: black;'' @ nl @
     '' background-color: white;'' @ nl @ ''}'' @ nl @ nl @ ''.cloze {'' @ nl @
     '' font-weight: bold;'' @ nl @ '' color: blue;'' @ nl @ ''}''"

definition default_latexPre :: string where
  "default_latexPre =
     bsl @ ''documentclass[12pt]{article}'' @ nl @
     bsl @ ''special{papersize=3in,5in}'' @ nl @
     bsl @ ''usepackage[utf8]{inputenc}'' @ nl @
     bsl @ ''usepackage{amssymb,amsmath}'' @ nl @
     bsl @ ''pagestyle{empty}'' @ nl @
     bsl @ ''setlength{'' @ bsl @ ''parindent}{0in}'' @ nl @
     bsl @ ''begin{document}'' @ nl"

definition default_latexPost :: string where
  "default_latexPost = bsl @ ''end{document}''"

definition fields_required :: "string list \<Rightarrow> template \<Rightarrow> int list" where
  "fields_required fields' tmpl =
     map (\<lambda>(j, field). int j)
       (filter (\<lambda>(j, field). sublist (''{{'' @ field @ ''}}'') (tp_qfmt tmpl)
                              \<or> sublist (''{{'' @ field @ ''}}'') (tp_afmt tmpl))
         (enumerate 0 fields'))"

definition add_model ::
  "model_clock \<Rightarrow> db \<Rightarrow> string \<Rightarrow> string list \<Rightarrow> template list \<Rightarrow> db \<times> (error + int)" where
  "add_model clk d name fields' templates =
     (case find (\<lambda>r. col_id r = 1) (db_col d) of
        None \<Rightarrow> (d, Inl TypeError)
      | Some r \<Rightarrow>
         (let models = col_models r;
              model_id = py_int (fmul (mtime_1 clk) (float_of_int 1000));
              model =
                \<lparr>m_id = model_id, m_name = name, m_type = 0, m_mod = py_int (mtime_2 clk),
                 m_usn = 0, m_sortf = 0, m_tags = [], m_did = 1,
                 m_tmpls =
                   map (\<lambda>(i, tmpl).
                          \<lparr>t_name = tp_name tmpl, t_ord = int i, t_qfmt = tp_qfmt tmpl,
                           t_afmt = tp_afmt tmpl, t_bqfmt = [], t_bafmt = [], t_did = None,
                           t_bfont = [], t_bsize = 0\<rparr>)
                     (enumerate 0 templates),
                 m_flds =
                   map (\<lambda>(i, field_name).
                          \<lparr>f_name = field_name, f_ord = int i, f_sticky = False, f_rtl = False,
                           f_font = ''Arial'', f_size = 20, f_media = []\<rparr>)
                     (enumerate 0 fields'),
                 m_css = default_css, m_latexPre = default_latexPre,
                 m_latexPost = default_latexPost,
                 m_req =
                   map (\<lambda>(i, tmpl). (int i, ''any'', fields_required fields' tmpl))
                     (enumerate 0 templates)\<rparr>;
              models = AList.update (py_str model_id) model models
          in (d\<lparr>db_col :=
                   map (\<lambda>r. if col_id r = 1
                             then r\<lparr>col_models := models, col_mod := py_int (mtime_3 clk)\<rparr>
                             else r) (db_col d)\<rparr>,
              Inr model_id)))"

section \<open>Exporting a package\<close>

text \<open>
  Files are a map from paths to contents. A content is raw bytes, a collection database
  (the tables above and, if the file has one, its \<open>media\<close> table), the JSON text of a
  string dictionary, or a ZIP archive: the list of its entries in the order they were
  written, a repeated name included, as \<open>zipfile\<close> writes them.

  The staging directory of \<open>tempfile\<close> is new and private to one call and is removed on
  every path, so it is a local dictionary from file names to contents.
\<close>

type_synonym bytes = string

record media_row =
  md_id :: int
  md_data :: bytes
  md_filename :: string

datatype content =
    Bytes bytes
  | Sqlite db "media_row list option"
  | Json "(string \<times> string) list"
  | Zip "(string \<times> content) list"

type_synonym files = "string \<rightharpoonup> content"

type_synonym staging = "(string \<times> content) list"

text \<open>
  \<open>ZipFile.write(path, arcname)\<close> inside the \<open>with\<close> block: the flag is False once a
  write has raised; the entries written before stay in the archive.
\<close>

definition zip_write ::
  "staging \<Rightarrow> string \<Rightarrow> string \<Rightarrow> (string \<times> content) list \<times> bool
     \<Rightarrow> (string \<times> content) list \<times> bool" where
  "zip_write temp_dir name arcname z =
     (if snd z then
        (case map_of temp_dir name of
           None \<Rightarrow> (fst z, False)
         | Some c \<Rightarrow> (fst z @ [(arcname, c)], True))
      else z)"

text \<open>
  \<open>AnkiFlashcardApp.export_apkg\<close> (anki-flashcard-app.py): media come from the list that
  \<open>add_media\<close> fills. Any exception is caught and the result is False.
\<close>

record flashcard_app =
  app_db_path :: string
  app_media_files :: "(string \<times> bytes) list"

definition export_apkg :: "flashcard_app \<Rightarrow> files \<Rightarrow> string \<Rightarrow> files \<times> bool" where
  "export_apkg self fs output_filename =
     (case fs (app_db_path self) of
        None \<Rightarrow> (fs, False)
      | Some collection \<Rightarrow>
         (let temp_dir = [(''collection.anki2'', collection)];
              media_dict =
                fold (\<lambda>(i, (filename, _)) m. AList.update (py_str (int i)) filename m)
                  (enumerate 0 (app_media_files self)) [];
              temp_dir = AList.update ''media'' (Json media_dict) temp_dir;
              temp_dir =
                fold (\<lambda>(i, (_, data)) t. AList.update (py_str (int i)) (Bytes data) t)
                  (enumerate 0 (app_media_files self)) temp_dir;
              zipf = zip_write temp_dir ''collection.anki2'' ''collection.anki2'' ([], True);
              zipf = zip_write temp_dir ''media'' ''media'' zipf;
              zipf =
                fold (\<lambda>(i, _) z. zip_write temp_dir (py_str (int i)) (py_str (int i)) z)
                  (enumerate 0 (app_media_files self)) zipf
          in (fs(output_filename \<mapsto> Zip (fst zipf)), snd zipf)))"

text \<open>
  \<open>AnkiSM2.export_to_apkg\<close> (review_and_export_v2.py): media come from the \<open>media\<close>
  table of the database, if it has one; a row counts when its data and its file name are
  non-empty. Nothing is caught. The media directory is the staging directory itself, and
  the last loop adds every file that \<open>os.listdir\<close> finds there (taken in the order of
  creation; Python leaves the order open). The caller gives \<open>output_path\<close>.
\<close>

datatype export_error = FileNotFoundError | DatabaseError

definition export_to_apkg ::
  "string \<Rightarrow> files \<Rightarrow> string \<Rightarrow> files \<times> (export_error + string)" where
  "export_to_apkg db_path fs output_path =
     (case fs db_path of
        None \<Rightarrow> (fs, Inl FileNotFoundError)
      | Some (Sqlite d media_table) \<Rightarrow>
         (let temp_dir = [(''collection.anki2'', Sqlite d media_table)];
              temp_dir = AList.update ''media'' (Json []) temp_dir;
              rows = (case media_table of
                        None \<Rightarrow> []
                      | Some rs \<Rightarrow> filter (\<lambda>r. md_data r \<noteq> [] \<and> md_filename r \<noteq> []) rs);
              temp_dir =
                fold (\<lambda>r t. AList.update (py_str (md_id r)) (Bytes (md_data r)) t) rows temp_dir;
              media_dict =
                fold (\<lambda>r m. AList.update (py_str (md_id r)) (md_filename r) m) rows [];
              temp_dir = AList.update ''media'' (Json media_dict) temp_dir;
              zip_file = zip_write temp_dir ''collection.anki2'' ''collection.anki2'' ([], True);
              zip_file = zip_write temp_dir ''media'' ''media'' zip_file;
              zip_file =
                fold (\<lambda>filename z. zip_write temp_dir filename filename z)
                  (map fst temp_dir) zip_file
          in (fs(output_path \<mapsto> Zip (fst zip_file)), Inr output_path))
      | Some _ \<Rightarrow> (fs, Inl DatabaseError))"

section \<open>Example data\<close>

definition example_card :: card_row where
  "example_card =
     \<lparr>c_id = 1, c_nid = 1, c_did = 1, c_ord = 0, c_mod = 0, c_usn = - 1, c_type = 2,
      c_queue = 2, c_due = 20000, c_ivl = 3, c_factor = 2500, c_reps = 2, c_lapses = 0,
      c_left = 0, c_odue = 0, c_odid = 0, c_flags = 0, c_data = []\<rparr>"

definition example_note :: note_row where
  "example_note =
     \<lparr>n_id = 1, n_guid = ''1'', n_mid = 1, n_mod = 0, n_usn = - 1, n_tags = [],
      n_flds = ''Who invented basketball?'' @ [CHR 0x1F] @ ''James Naismith'',
      n_sfld = ''Who invented basketball?'', n_csum = 2262, n_flags = 0, n_data = []\<rparr>"

definition example_col :: col_row where
  "example_col =
     \<lparr>col_id = 1, col_crt = 1762272000, col_mod = 1762272000, col_scm = 1, col_ver = 11,
      col_dty = 0, col_usn = 0, col_ls = 0, col_conf = ''{}'', col_models = [],
      col_decks = ''{}'', col_dconf = ''{}'', col_tags = ''{}''\<rparr>"

definition example_db :: db where
  "example_db =
     \<lparr>db_col = [example_col], db_notes = [example_note], db_cards = [example_card],
      db_revlog = []\<rparr>"

definition example_clock :: clock where
  "example_clock =
     \<lparr>time_1 = 1762272000, now_1 = 1762272000000000, time_2 = 1762272000,
      randint_1 = 5000\<rparr>"

section \<open>The formulas of the specification\<close>

text \<open>
  The specification's formulas for the ease factor, written with the float operations
  of Python: the stored factor is the ease in thousandths, \<open>factor / 1000.0\<close> reads it
  and \<open>int(ease * 1000)\<close> writes it; \<open>round\<close> is Python's rounding of a float to
  an \<open>int\<close> (ties to even).
\<close>

definition ease_of_factor :: "int \<Rightarrow> pyfloat" where
  "ease_of_factor factor = fdiv (float_of_int factor) 1000"

definition factor_of_ease :: "pyfloat \<Rightarrow> int" where
  "factor_of_ease ease = py_int (fmul ease (float_of_int 1000))"

definition fail_ease :: "pyfloat \<Rightarrow> pyfloat" where
  "fail_ease old_ease = max (fl (13 / 10)) (fsub old_ease (fl (2 / 10)))"




text \<open>The id of the review-log row that a call with these clock readings inserts.\<close>

definition review_id :: "clock \<Rightarrow> int" where
  "review_id clk = py_int (fmul (time_2 clk) (float_of_int 1000))"



text \<open>A new card whose note holds a single field, and one in the learning queue.\<close>

definition short_note :: note_row where
  "short_note = example_note\<lparr>n_flds := ''Only one field''\<rparr>"

definition new_card :: card_row where
  "new_card = example_card\<lparr>c_type := 0, c_queue := 0, c_due := 5, c_ivl := 0, c_reps := 0\<rparr>"

definition short_db :: db where
  "short_db = example_db\<lparr>db_notes := [short_note], db_cards := [new_card]\<rparr>"

definition learning_card :: card_row where
  "learning_card = example_card\<lparr>c_id := 2, c_type := 1, c_queue := 1, c_due := 1762272060\<rparr>"

definition later_card :: card_row where
  "later_card = example_card\<lparr>c_id := 3, c_due := 30000\<rparr>"

definition queue_db :: db where
  "queue_db = example_db\<lparr>db_cards := [example_card, learning_card, later_card,
                                      new_card\<lparr>c_id := 4\<rparr>]\<rparr>"

text \<open>Two readings of the clock within one millisecond, and one a second later.\<close>

definition clock_a :: model_clock where
  "clock_a = \<lparr>mtime_1 = 1762272000 + 1 / 4096, mtime_2 = 1762272000 + 1 / 4096,
              mtime_3 = 1762272000 + 1 / 4096\<rparr>"

definition clock_b :: model_clock where
  "clock_b = \<lparr>mtime_1 = 1762272000 + 1 / 2048, mtime_2 = 1762272000 + 1 / 2048,
              mtime_3 = 1762272000 + 1 / 2048\<rparr>"

definition clock_c :: model_clock where
  "clock_c = \<lparr>mtime_1 = 1762272001, mtime_2 = 1762272001, mtime_3 = 1762272001\<rparr>"

definition example_template :: template where
  "example_template =
     \<lparr>tp_name = ''Card 1'', tp_qfmt = ''{{Question}}'',
      tp_afmt = ''{{FrontSide}}<hr id=answer>{{Answer}}''\<rparr>"

text \<open>An application with one media file, and a database file with one media row.\<close>

definition example_app :: flashcard_app where
  "example_app =
     \<lparr>app_db_path = ''mycollection.anki2'', app_media_files = [(''hoop.png'', ''PNG'')]\<rparr>"

definition example_files :: files where
  "example_files = [''mycollection.anki2'' \<mapsto> Bytes ''SQLite format 3'']"

definition example_files_v2 :: files where
  "example_files_v2 =
     [''basketball_anki.db'' \<mapsto>
        Sqlite example_db (Some [\<lparr>md_id = 0, md_data = ''PNG'', md_filename = ''hoop.png''\<rparr>])]"

text \<open>The id that \<open>add_model\<close> takes from its first reading of the clock.\<close>

definition model_id_of :: "model_clock \<Rightarrow> int" where
  "model_id_of clk = py_int (fmul (mtime_1 clk) (float_of_int 1000))"

text \<open>
  Three calls of \<open>add_model\<close>: a first one, a second one within the same millisecond,
  and one with the arguments of the first a second later.
\<close>

definition first_add :: "db \<times> (error + int)" where
  "first_add = add_model clock_a example_db ''Model A'' [''Question'', ''Answer''] [example_template]"

definition second_add :: "db \<times> (error + int)" where
  "second_add =
     add_model clock_b (fst first_add) ''Model B'' [''Question'', ''Answer''] [example_template]"

definition later_add :: "db \<times> (error + int)" where
  "later_add =
     add_model clock_c (fst first_add) ''Model A'' [''Question'', ''Answer''] [example_template]"

section \<open>Rounding never falls below a representable bound\<close>











section \<open>The scheduler: what one call does to the reviewed card\<close>













text \<open>
  The truncation shows in the stored factor too: from 2360 a failing review stores 2159,
  where the exact value of \<open>max(1.3, 2.36 - 0.2)\<close> in thousandths is 2160, because the
  float nearest to \<open>2.36 - 0.2\<close> lies just below 2.16.
\<close>

lemma truncated_factor: "factor_of_ease (fail_ease (ease_of_factor 2360)) = 2159"
  by code_simp








section \<open>The scheduler: errors, the review log and the frame\<close>










text \<open>
  C9. Whatever a call returns or raises, the collection record and the notes table are
  unchanged; every card row keeps its id, note id, deck id, template order, usn, original
  due and deck, flags and data; every row of another card is unchanged; and the review
  log is the old one with at most one row appended.
\<close>

theorem frame:
  "db_col (fst (apply_sm2_algorithm clk d i q)) = db_col d \<and>
   db_notes (fst (apply_sm2_algorithm clk d i q)) = db_notes d \<and>
   list_all2
     (\<lambda>c c'. c_id c' = c_id c \<and> c_nid c' = c_nid c \<and> c_did c' = c_did c \<and>
              c_ord c' = c_ord c \<and> c_usn c' = c_usn c \<and> c_odue c' = c_odue c \<and>
              c_odid c' = c_odid c \<and> c_flags c' = c_flags c \<and> c_data c' = c_data c \<and>
              (c_id c \<noteq> i \<longrightarrow> c' = c))
     (db_cards d) (db_cards (fst (apply_sm2_algorithm clk d i q))) \<and>
   (\<exists>es. db_revlog (fst (apply_sm2_algorithm clk d i q)) = db_revlog d @ es \<and> length es \<le> 1)"
  by (auto simp: apply_sm2_algorithm_def Let_def list_all2_map2 list_all2_same
      list.rel_refl split: sum.splits option.splits)

theorem frame_witness:
  "db_col (fst (apply_sm2_algorithm example_clock queue_db 1 5)) = db_col queue_db \<and>
   db_notes (fst (apply_sm2_algorithm example_clock queue_db 1 5)) = db_notes queue_db \<and>
   list_all2
     (\<lambda>c c'. c_id c' = c_id c \<and> c_nid c' = c_nid c \<and> c_did c' = c_did c \<and>
              c_ord c' = c_ord c \<and> c_usn c' = c_usn c \<and> c_odue c' = c_odue c \<and>
              c_odid c' = c_odid c \<and> c_flags c' = c_flags c \<and> c_data c' = c_data c \<and>
              (c_id c \<noteq> 1 \<longrightarrow> c' = c))
     (db_cards queue_db) (db_cards (fst (apply_sm2_algorithm example_clock queue_db 1 5))) \<and>
   (\<exists>es. db_revlog (fst (apply_sm2_algorithm example_clock queue_db 1 5))
            = db_revlog queue_db @ es \<and> length es \<le> 1)"
  using frame [of example_clock queue_db 1 5] by simp

section \<open>Due cards\<close>

lemma set_due_result:
  "set (due_result rows) =
     {\<lparr>dc_id = i, dc_question = split_on (CHR 0x1F) f ! 0, dc_answer = split_on (CHR 0x1F) f ! 1\<rparr>
        | i f. (i, f) \<in> set rows \<and> 2 \<le> length (split_on (CHR 0x1F) f)}"
  by (induction rows rule: due_result.induct) (auto simp: Let_def)

lemma set_due_rows:
  "set [(c_id c, n_flds n). c \<leftarrow> cs, n \<leftarrow> ns, P c n]
     = {(c_id c, n_flds n) | c n. c \<in> set cs \<and> n \<in> set ns \<and> P c n}"
  by auto

lemma example_due_ids:
  "map dc_id (get_cards_due_today (now_1 example_clock) queue_db) = [1, 4]"
  by code_simp

text \<open>
  C6, as the code has it. For every database and every day, the query returns exactly
  the cards that are in the new queue (queue 0) or in the review queue (queue 2) with a
  due day up to today, whose note is in the notes table and whose field text splits at
  the separator into at least two fields; each comes with the first two fields of its
  note as question and answer. Every id in the result is the id of a card of the new
  queue or of a due card of the review queue.
\<close>

theorem due_cards:
  "set (get_cards_due_today now d) =
     {\<lparr>dc_id = c_id c,
       dc_question = split_on (CHR 0x1F) (n_flds n) ! 0,
       dc_answer = split_on (CHR 0x1F) (n_flds n) ! 1\<rparr>
        | c n. c \<in> set (db_cards d) \<and> n \<in> set (db_notes d) \<and> c_nid c = n_id n \<and>
               (c_queue c = 0 \<or> (c_queue c = 2 \<and> c_due c \<le> days_since_epoch now)) \<and>
               2 \<le> length (split_on (CHR 0x1F) (n_flds n))} \<and>
   dc_id ` set (get_cards_due_today now d) \<subseteq>
     c_id ` {c \<in> set (db_cards d).
               c_queue c = 0 \<or> (c_queue c = 2 \<and> c_due c \<le> days_since_epoch now)}"
proof -
  have A: "set (get_cards_due_today now d) =
     {\<lparr>dc_id = c_id c,
       dc_question = split_on (CHR 0x1F) (n_flds n) ! 0,
       dc_answer = split_on (CHR 0x1F) (n_flds n) ! 1\<rparr>
        | c n. c \<in> set (db_cards d) \<and> n \<in> set (db_notes d) \<and> c_nid c = n_id n \<and>
               (c_queue c = 0 \<or> (c_queue c = 2 \<and> c_due c \<le> days_since_epoch now)) \<and>
               2 \<le> length (split_on (CHR 0x1F) (n_flds n))}"
    unfolding get_cards_due_today_def Let_def set_due_result set_due_rows
    by blast
  have B: "dc_id ` set (get_cards_due_today now d) \<subseteq>
     c_id ` {c \<in> set (db_cards d).
               c_queue c = 0 \<or> (c_queue c = 2 \<and> c_due c \<le> days_since_epoch now)}"
    unfolding A by auto
  from A B show ?thesis by (rule conjI)
qed

theorem due_cards_witness:
  "dc_id ` set (get_cards_due_today (now_1 example_clock) queue_db) \<subseteq>
     c_id ` {c \<in> set (db_cards queue_db).
               c_queue c = 0 \<or>
               (c_queue c = 2 \<and> c_due c \<le> days_since_epoch (now_1 example_clock))} \<and>
   map dc_id (get_cards_due_today (now_1 example_clock) queue_db) = [1, 4]"
  using conjunct2 [OF due_cards [of "now_1 example_clock" queue_db]] example_due_ids
  by (rule conjI)

text \<open>
  C6 as stated fails: a card of the new queue whose note holds one field only is not
  returned, since the loop keeps a row only when its field text has at least two parts.
\<close>

theorem due_cards_skip_short_note:
  "db_cards short_db = [new_card] \<and> c_queue new_card = 0 \<and>
   db_notes short_db = [short_note] \<and> n_id short_note = c_nid new_card \<and>
   get_cards_due_today (now_1 example_clock) short_db = []"
  by code_simp

section \<open>Adding a note type: ids and the model document\<close>

declare str_nat.simps [simp del]

lemma str_nat_small: "n < 10 \<Longrightarrow> str_nat n = [digit_char n]"
  by (subst str_nat.simps) simp

lemma str_nat_large:
  "\<not> n < 10 \<Longrightarrow> str_nat n = str_nat (n div 10) @ [digit_char (n mod 10)]"
  by (subst str_nat.simps) simp

lemma str_nat_not_Nil: "str_nat n \<noteq> []"
  by (subst str_nat.simps) simp

lemma digit_char_inj:
  assumes "a < 10" "b < 10" "digit_char a = digit_char b"
  shows "a = b"
proof -
  have "distinct ''0123456789''" by simp
  moreover have "a < length ''0123456789''" "b < length ''0123456789''"
    using assms(1,2) by simp_all
  ultimately show ?thesis
    using assms(3) unfolding digit_char_def by (simp only: nth_eq_iff_index_eq)
qed

lemma digit_char_not_minus: "a < 10 \<Longrightarrow> digit_char a \<noteq> CHR ''-''"
proof -
  assume "a < 10"
  then have "''0123456789'' ! a \<in> set ''0123456789''"
    by (intro nth_mem) simp
  then show ?thesis unfolding digit_char_def by auto
qed

lemma str_nat_inj: "str_nat n = str_nat m \<Longrightarrow> n = m"
proof (induction n arbitrary: m rule: str_nat.induct)
  case (1 n)
  show ?case
  proof (cases "n < 10")
    case True
    show ?thesis
    proof (cases "m < 10")
      case m: True
      then show ?thesis using "1.prems" True
        by (auto simp: str_nat_small intro: digit_char_inj)
    next
      case m: False
      then show ?thesis using "1.prems" True str_nat_not_Nil[of "m div 10"]
        by (simp add: str_nat_small str_nat_large)
    qed
  next
    case False
    show ?thesis
    proof (cases "m < 10")
      case m: True
      then show ?thesis using "1.prems" False str_nat_not_Nil[of "n div 10"]
        by (simp add: str_nat_small str_nat_large)
    next
      case m: False
      have eq: "str_nat (n div 10) = str_nat (m div 10)"
        "digit_char (n mod 10) = digit_char (m mod 10)"
        using "1.prems" False m by (simp_all add: str_nat_large)
      have "n div 10 = m div 10" using "1.IH"[OF False eq(1)] .
      moreover have "n mod 10 = m mod 10"
        by (rule digit_char_inj[OF _ _ eq(2)]) simp_all
      ultimately show ?thesis by (metis div_mult_mod_eq)
    qed
  qed
qed

lemma str_nat_hd_not_minus: "hd (str_nat n) \<noteq> CHR ''-''"
proof (induction n rule: str_nat.induct)
  case (1 n)
  show ?case
  proof (cases "n < 10")
    case True
    then show ?thesis by (simp add: str_nat_small digit_char_not_minus)
  next
    case False
    then show ?thesis using "1.IH" str_nat_not_Nil[of "n div 10"]
      by (simp add: str_nat_large)
  qed
qed

lemma py_str_inj: "py_str a = py_str b \<Longrightarrow> a = b"
proof -
  assume eq: "py_str a = py_str b"
  have neg: "\<And>x y. CHR ''-'' # str_nat x \<noteq> str_nat y"
    using str_nat_hd_not_minus by (metis list.sel(1))
  show ?thesis
  proof (cases "a < 0")
    case True
    then have "b < 0" using eq neg by (auto simp: py_str_def split: if_splits)
    then show ?thesis using eq True by (auto simp: py_str_def dest: str_nat_inj)
  next
    case False
    then have "\<not> b < 0" using eq neg[of "nat (- b)" "nat a"]
      by (auto simp: py_str_def split: if_splits)
    then show ?thesis using eq False by (auto simp: py_str_def dest: str_nat_inj)
  qed
qed


lemma find_col_upd:
  assumes "\<And>r. col_id (g r) = col_id r"
  shows "find (\<lambda>r. col_id r = i) (map (\<lambda>r. if col_id r = i then g r else r) rs)
       = map_option g (find (\<lambda>r. col_id r = i) rs)"
  using assms by (induction rs) auto

lemma add_model_result:
  assumes "find (\<lambda>r. col_id r = 1) (db_col d) = Some r0"
  shows "\<exists>m. add_model clk d name fs ts =
           (d\<lparr>db_col :=
                map (\<lambda>r. if col_id r = 1
                          then r\<lparr>col_models := AList.update (py_str (model_id_of clk)) m (col_models r0),
                                 col_mod := py_int (mtime_3 clk)\<rparr>
                          else r) (db_col d)\<rparr>,
            Inr (model_id_of clk)) \<and>
         m_id m = model_id_of clk \<and> m_name m = name"
  using assms
  apply (simp add: add_model_def Let_def)
  apply (unfold model_id_of_def)
  apply (intro exI conjI)
    apply (rule refl)
   apply simp_all
  done

text \<open>
  C7, as the code has it. On a database with its collection record, two calls of
  \<open>add_model\<close>, the second on the state the first leaves, both return; when their clock
  readings give different milliseconds the two ids are distinct and the model document
  afterwards holds both models under their ids, whatever the names, fields and templates
  are (equal arguments included), and the models it held under other ids are unchanged.
\<close>

theorem add_model_twice:
  assumes "find (\<lambda>r. col_id r = 1) (db_col d) = Some r0"
    and "model_id_of clk1 \<noteq> model_id_of clk2"
  shows "\<exists>d1 d2 r2 m1 m2.
     add_model clk1 d name1 fs1 ts1 = (d1, Inr (model_id_of clk1)) \<and>
     add_model clk2 d1 name2 fs2 ts2 = (d2, Inr (model_id_of clk2)) \<and>
     find (\<lambda>r. col_id r = 1) (db_col d2) = Some r2 \<and>
     map_of (col_models r2) (py_str (model_id_of clk1)) = Some m1 \<and>
     m_id m1 = model_id_of clk1 \<and> m_name m1 = name1 \<and>
     map_of (col_models r2) (py_str (model_id_of clk2)) = Some m2 \<and>
     m_id m2 = model_id_of clk2 \<and> m_name m2 = name2 \<and>
     (\<forall>k. k \<noteq> py_str (model_id_of clk1) \<and> k \<noteq> py_str (model_id_of clk2) \<longrightarrow>
          map_of (col_models r2) k = map_of (col_models r0) k)"
proof -
  define k1 where "k1 = py_str (model_id_of clk1)"
  define k2 where "k2 = py_str (model_id_of clk2)"
  have k: "k1 \<noteq> k2" using assms(2) py_str_inj unfolding k1_def k2_def by blast
  obtain m1 where m1: "add_model clk1 d name1 fs1 ts1 =
           (d\<lparr>db_col :=
                map (\<lambda>r. if col_id r = 1
                          then r\<lparr>col_models := AList.update k1 m1 (col_models r0),
                                 col_mod := py_int (mtime_3 clk1)\<rparr>
                          else r) (db_col d)\<rparr>,
            Inr (model_id_of clk1))" "m_id m1 = model_id_of clk1" "m_name m1 = name1"
    using add_model_result[OF assms(1), of clk1 name1 fs1 ts1] unfolding k1_def by blast
  define d1 where "d1 = fst (add_model clk1 d name1 fs1 ts1)"
  define r1 where "r1 = r0\<lparr>col_models := AList.update k1 m1 (col_models r0),
                               col_mod := py_int (mtime_3 clk1)\<rparr>"
  have f1: "find (\<lambda>r. col_id r = 1) (db_col d1) = Some r1"
    unfolding d1_def r1_def m1(1) using assms(1) by (simp add: find_col_upd)
  obtain m2 where m2: "add_model clk2 d1 name2 fs2 ts2 =
           (d1\<lparr>db_col :=
                map (\<lambda>r. if col_id r = 1
                          then r\<lparr>col_models := AList.update k2 m2 (col_models r1),
                                 col_mod := py_int (mtime_3 clk2)\<rparr>
                          else r) (db_col d1)\<rparr>,
            Inr (model_id_of clk2))" "m_id m2 = model_id_of clk2" "m_name m2 = name2"
    using add_model_result[OF f1, of clk2 name2 fs2 ts2] unfolding k2_def by blast
  define d2 where "d2 = fst (add_model clk2 d1 name2 fs2 ts2)"
  define r2 where "r2 = r1\<lparr>col_models := AList.update k2 m2 (col_models r1),
                               col_mod := py_int (mtime_3 clk2)\<rparr>"
  have f2: "find (\<lambda>r. col_id r = 1) (db_col d2) = Some r2"
    unfolding d2_def r2_def m2(1) using f1 by (simp add: find_col_upd)
  have models: "map_of (col_models r2) = (map_of (col_models r0))(k1 \<mapsto> m1, k2 \<mapsto> m2)"
    by (simp add: r2_def r1_def update_conv')
  have a1: "add_model clk1 d name1 fs1 ts1 = (d1, Inr (model_id_of clk1))"
    unfolding d1_def by (simp add: m1(1))
  have a2: "add_model clk2 d1 name2 fs2 ts2 = (d2, Inr (model_id_of clk2))"
    unfolding d2_def by (simp add: m2(1))
  have "map_of (col_models r2) k1 = Some m1" "map_of (col_models r2) k2 = Some m2"
    "\<forall>k. k \<noteq> k1 \<and> k \<noteq> k2 \<longrightarrow> map_of (col_models r2) k = map_of (col_models r0) k"
    using k by (simp_all add: models)
  with a1 a2 f2 m1(2,3) m2(2,3) show ?thesis
    unfolding k1_def k2_def by blast
qed

lemma example_str_id: "py_str 1762272000000 = ''1762272000000''"
  by (simp add: py_str_def digit_char_def str_nat.simps)

lemma example_col_find: "find (\<lambda>r. col_id r = 1) (db_col example_db) = Some example_col"
  by (simp add: example_db_def example_col_def)

lemma example_id_a: "py_int (fmul (mtime_1 clock_a) (float_of_int 1000)) = 1762272000000"
  by code_simp

lemma example_id_b: "py_int (fmul (mtime_1 clock_b) (float_of_int 1000)) = 1762272000000"
  by code_simp

lemma example_id_c: "py_int (fmul (mtime_1 clock_c) (float_of_int 1000)) = 1762272001000"
  by code_simp

theorem add_model_twice_witness:
  "\<exists>d1 d2 r2 m1 m2.
     add_model clock_a example_db ''Model A'' [''Question'', ''Answer''] [example_template]
       = (d1, Inr 1762272000000) \<and>
     add_model clock_c d1 ''Model A'' [''Question'', ''Answer''] [example_template]
       = (d2, Inr 1762272001000) \<and>
     find (\<lambda>r. col_id r = 1) (db_col d2) = Some r2 \<and>
     map_of (col_models r2) (py_str 1762272000000) = Some m1 \<and>
     m_id m1 = 1762272000000 \<and> m_name m1 = ''Model A'' \<and>
     map_of (col_models r2) (py_str 1762272001000) = Some m2 \<and>
     m_id m2 = 1762272001000 \<and> m_name m2 = ''Model A''"
proof -
  have a: "model_id_of clock_a = 1762272000000" and c: "model_id_of clock_c = 1762272001000"
    by (simp_all add: model_id_of_def example_id_a example_id_c)
  have ne: "model_id_of clock_a \<noteq> model_id_of clock_c" by (simp add: a c)
  from add_model_twice [OF example_col_find ne,
      of "''Model A''" "[''Question'', ''Answer'']" "[example_template]"
         "''Model A''" "[''Question'', ''Answer'']" "[example_template]"]
  show ?thesis unfolding a c by blast
qed

text \<open>
  C7 as stated fails: two calls whose clock readings fall into the same millisecond get
  the same id, and the second model replaces the first in the model document, which
  holds one model afterwards.
\<close>

theorem add_model_same_millisecond:
  "snd first_add = Inr 1762272000000 \<and> snd second_add = Inr 1762272000000 \<and>
   map (\<lambda>r. map (\<lambda>(k, m). (k, m_name m)) (col_models r)) (db_col (fst second_add))
     = [[(''1762272000000'', ''Model B'')]]"
  by (simp add: first_add_def second_add_def add_model_def Let_def example_col_find
      find_col_upd example_id_a example_id_b example_str_id example_db_def example_col_def)

end
